theory Spec2Isabelle
  imports Main
begin

section \<open>The Go runtime as far as package snapshot uses it\<close>

text \<open>
  Package snapshot is written against \<^verbatim>\<open>*testing.T\<close>, \<^verbatim>\<open>io.Reader\<close> and the file
  system. All three are made explicit here.

  \<^item> A call either returns a value or does not return: \<^verbatim>\<open>t.Fatalf\<close> stops the calling
    test with a message, and a run-time panic stops it as well. Both are values of
    \<open>abort\<close>, and a call returns \<open>abort + 'a\<close>.
  \<^item> The world is the set of regular files (by cleaned path), the log of the running
    test, and an oracle \<open>fault\<close> that says which storage operations fail and with
    which error text; every error branch of the source is reachable through it.
  \<^item> Directories are not tracked: \<^verbatim>\<open>os.MkdirAll\<close> only succeeds or fails.
  \<^item> \<^verbatim>\<open>t.Cleanup\<close> registers the closing of a file at the end of the test and has no
    effect before, so it is left out.
\<close>

datatype abort = Fatalf string | Panic string

type_synonym 'a result = "abort + 'a"

datatype fsop =
    OpOpen string
  | OpMkdirAll string
  | OpCreate string
  | OpWrite string
  | OpRead string
  | OpSeek string

record world =
  files :: "string \<Rightarrow> string option"
  fault :: "fsop \<Rightarrow> string option"
  tlog :: "string list"

text \<open>\<^verbatim>\<open>t.Log\<close> and \<^verbatim>\<open>t.Logf\<close>, with the message already formatted.\<close>

definition tLog :: "string \<Rightarrow> world \<Rightarrow> world" where
  "tLog msg w = w\<lparr>tlog := tlog w @ [msg]\<rparr>"

subsection \<open>Streams\<close>

text \<open>
  An \<^verbatim>\<open>io.Reader\<close> is one of: the nil interface value; an in-memory stream that yields
  its bytes and then ends, with \<^verbatim>\<open>io.EOF\<close> or with an error (\<^verbatim>\<open>strings.Reader\<close>,
  \<^verbatim>\<open>bytes.Buffer\<close>, a pipe that is closed by its writer); an open \<^verbatim>\<open>*os.File\<close>, given by
  its path and its offset; or \<^verbatim>\<open>io.TeeReader(r, file)\<close>, which writes to the open file
  what is read from \<open>r\<close>. Streams are finite. A stream value stands for a reader that
  has not been read yet.
\<close>

datatype reader =
    NilReader
  | MemReader string "string option"
  | OsFile string nat
  | TeeReader reader string nat

text \<open>
  Writing \<open>d\<close> at offset \<open>off\<close> into a file of content \<open>c\<close>; a gap is filled with zero
  bytes. A write through a handle whose file is gone from the directory changes
  nothing that is visible.
\<close>

definition writeAt :: "string \<Rightarrow> nat \<Rightarrow> string \<Rightarrow> string" where
  "writeAt c off d =
     take off (c @ replicate (off - length c) (CHR 0x00)) @ d @ drop (off + length d) c"

definition fileWrite :: "string \<Rightarrow> nat \<Rightarrow> string \<Rightarrow> world \<Rightarrow> world" where
  "fileWrite p off d w =
     (case files w p of
        None \<Rightarrow> w
      | Some c \<Rightarrow> w\<lparr>files := (files w)(p \<mapsto> writeAt c off d)\<rparr>)"

text \<open>
  Reading a stream to its end, as \<^verbatim>\<open>io.Copy\<close> into a buffer and \<^verbatim>\<open>io.ReadAll\<close> do: the
  bytes read and the error that ended the reading (\<open>None\<close> at end of file). Reading
  the nil reader panics. The tee writes what it reads; it writes nothing when
  nothing was read, and a failing write ends the reading with the write error.
\<close>

fun readAll :: "reader \<Rightarrow> world \<Rightarrow> (string \<times> string option) result \<times> world" where
  "readAll NilReader w =
     (Inl (Panic ''invalid memory address or nil pointer dereference''), w)"
| "readAll (MemReader d e) w = (Inr (d, e), w)"
| "readAll (OsFile p off) w =
     (case fault w (OpRead p) of
        Some e \<Rightarrow> (Inr ([], Some e), w)
      | None \<Rightarrow>
          (case files w p of
             None \<Rightarrow> (Inr ([], Some (''read '' @ p @ '': file already closed'')), w)
           | Some c \<Rightarrow> (Inr (drop off c, None), w)))"
| "readAll (TeeReader r p off) w =
     (case readAll r w of
        (Inl a, w1) \<Rightarrow> (Inl a, w1)
      | (Inr (d, e), w1) \<Rightarrow>
          if d = [] then (Inr (d, e), w1)
          else (case fault w1 (OpWrite p) of
                  Some we \<Rightarrow> (Inr ([], Some we), w1)
                | None \<Rightarrow> (Inr (d, e), fileWrite p off d w1)))"

text \<open>A stream that contains no nil reader; reading it never panics.\<close>

fun nonNil :: "reader \<Rightarrow> bool" where
  "nonNil NilReader = False"
| "nonNil (MemReader d e) = True"
| "nonNil (OsFile p off) = True"
| "nonNil (TeeReader r p off) = nonNil r"

text \<open>The paths of the files a stream reads from or writes to.\<close>

fun readerPaths :: "reader \<Rightarrow> string set" where
  "readerPaths NilReader = {}"
| "readerPaths (MemReader d e) = {}"
| "readerPaths (OsFile p off) = {p}"
| "readerPaths (TeeReader r p off) = insert p (readerPaths r)"

subsection \<open>Go values and the libraries\<close>

text \<open>
  The values that are passed as \<^verbatim>\<open>interface{}\<close>: the dynamic type is the constructor.
  A function value is given by the number of its parameters, by whether the last of
  them is variadic, and by the values a call without arguments returns.
\<close>

datatype goValue =
    GoNil
  | GoInt int
  | GoString string
  | GoBytes string
  | GoSlice "goValue list"
  | GoStruct "(string \<times> goValue) list"
  | GoChan
  | GoFunc nat bool "goValue list"

text \<open>
  What the code takes from libraries whose sources are not part of the package is a
  parameter:
  \<^item> \<open>quoteRune\<close>: how \<^verbatim>\<open>strconv.Quote\<close> renders the rune at the head of a string that
    starts with a byte \<open>\<ge> 0x80\<close>, and the width of that rune in bytes (the Unicode
    tables decide);
  \<^item> \<open>filepathJoin\<close>, \<open>filepathDir\<close>, \<open>filepathClean\<close>: package \<^verbatim>\<open>path/filepath\<close>;
  \<^item> \<open>cmpReport\<close>: the report \<^verbatim>\<open>cmp.Diff\<close> of go-cmp prints for two values that are
    not equal (its format is not fixed by go-cmp);
  \<^item> \<open>jsonMarshalIndent\<close>: \<^verbatim>\<open>encoding/json\<close> with prefix \<^verbatim>\<open>""\<close> and indent of two
    spaces: the encoding of a value, or the text of the encoder's error.
\<close>

record golib =
  quoteRune :: "string \<Rightarrow> string \<times> nat"
  filepathJoin :: "string list \<Rightarrow> string"
  filepathDir :: "string \<Rightarrow> string"
  filepathClean :: "string \<Rightarrow> string"
  cmpReport :: "goValue \<Rightarrow> goValue \<Rightarrow> string"
  jsonMarshalIndent :: "goValue \<Rightarrow> string + string"

text \<open>
  The verb \<^verbatim>\<open>%q\<close> of package \<^verbatim>\<open>fmt\<close> on a string is \<^verbatim>\<open>strconv.Quote\<close>: the string in
  double quotes, a double quote and a backslash escaped by a backslash, a printable
  ASCII byte as it is, the control characters 7 to 13 as \<^verbatim>\<open>\a \b \t \n \v \f \r\<close>, every
  other byte below \<open>0x80\<close> as \<^verbatim>\<open>\x\<close> and two hexadecimal digits.
\<close>

definition lowerhex :: "nat \<Rightarrow> char" where
  "lowerhex n = ''0123456789abcdef'' ! (n mod 16)"

definition escapeASCII :: "char \<Rightarrow> string" where
  "escapeASCII c =
     (let r = (of_char c :: nat) in
      if c = CHR 0x22 \<or> c = CHR 0x5C then [CHR 0x5C, c]
      else if 0x20 \<le> r \<and> r < 0x7F then [c]
      else if r = 0x07 then [CHR 0x5C, CHR ''a'']
      else if r = 0x08 then [CHR 0x5C, CHR ''b'']
      else if r = 0x0C then [CHR 0x5C, CHR ''f'']
      else if r = 0x0A then [CHR 0x5C, CHR ''n'']
      else if r = 0x0D then [CHR 0x5C, CHR ''r'']
      else if r = 0x09 then [CHR 0x5C, CHR ''t'']
      else if r = 0x0B then [CHR 0x5C, CHR ''v'']
      else [CHR 0x5C, CHR ''x'', lowerhex (r div 16), lowerhex r])"

function quoteBody :: "golib \<Rightarrow> string \<Rightarrow> string" where
  "quoteBody L [] = []"
| "quoteBody L (c # cs) =
     (if (of_char c :: nat) < 0x80 then escapeASCII c @ quoteBody L cs
      else fst (quoteRune L (c # cs))
             @ quoteBody L (drop (max 1 (snd (quoteRune L (c # cs)))) (c # cs)))"
  by pat_completeness auto
termination
  by (relation "measure (\<lambda>(L, s). length s)") auto

definition strconvQuote :: "golib \<Rightarrow> string \<Rightarrow> string" where
  "strconvQuote L s = [CHR 0x22] @ quoteBody L s @ [CHR 0x22]"

text \<open>
  \<^verbatim>\<open>cmp.Equal\<close> and \<^verbatim>\<open>cmp.Diff\<close> of go-cmp, called without options on strings and byte
  slices. The source of go-cmp is not part of the package; the two functions follow
  its documentation: values of different types are never equal, two strings and two
  (non-nil) byte slices are equal when their contents are, and \<^verbatim>\<open>Diff\<close> returns the
  empty string exactly when \<^verbatim>\<open>Equal\<close> holds, and a report otherwise.
\<close>

definition cmpEqual :: "goValue \<Rightarrow> goValue \<Rightarrow> bool" where
  "cmpEqual x y =
     (case (x, y) of
        (GoString a, GoString b) \<Rightarrow> a = b
      | (GoBytes a, GoBytes b) \<Rightarrow> a = b
      | _ \<Rightarrow> False)"

definition cmpDiff :: "golib \<Rightarrow> goValue \<Rightarrow> goValue \<Rightarrow> string" where
  "cmpDiff L x y = (if cmpEqual x y then [] else cmpReport L x y)"

section \<open>Comparators\<close>

type_synonym Comparator = "reader \<Rightarrow> reader \<Rightarrow> world \<Rightarrow> (bool \<times> string) result \<times> world"

type_synonym ReaderNormaliser = "reader \<Rightarrow> world \<Rightarrow> reader result \<times> world"

definition readToString :: "reader \<Rightarrow> world \<Rightarrow> (string \<times> string option) result \<times> world" where
  "readToString r w = readAll r w"

definition StringComparator :: "golib \<Rightarrow> Comparator" where
  "StringComparator L expected actual w =
     (case readToString expected w of
        (Inl a, w1) \<Rightarrow> (Inl a, w1)
      | (Inr (eStr, Some err), w1) \<Rightarrow>
          (Inr (False, ''failed to read expected data from reader: '' @ err), w1)
      | (Inr (eStr, None), w1) \<Rightarrow>
          (case readToString actual w1 of
             (Inl a, w2) \<Rightarrow> (Inl a, w2)
           | (Inr (aStr, Some err), w2) \<Rightarrow>
               (Inr (False, ''failed to read actual data from reader: '' @ err), w2)
           | (Inr (aStr, None), w2) \<Rightarrow>
               (let ok = (eStr = aStr) in
                (Inr (ok, if \<not> ok
                          then ''expected '' @ strconvQuote L eStr @ '', got '' @ strconvQuote L aStr
                          else []), w2))))"

definition StringDiffComparator :: "golib \<Rightarrow> Comparator" where
  "StringDiffComparator L expected actual w =
     (case readToString actual w of
        (Inl a, w1) \<Rightarrow> (Inl a, w1)
      | (Inr (actualString, Some err), w1) \<Rightarrow>
          (Inr (False, ''failed to read actual io.Reader: '' @ err), w1)
      | (Inr (actualString, None), w1) \<Rightarrow>
          (case readToString expected w1 of
             (Inl a, w2) \<Rightarrow> (Inl a, w2)
           | (Inr (expectedString, Some err), w2) \<Rightarrow>
               (Inr (False, ''failed to read expected io.Reader: '' @ err), w2)
           | (Inr (expectedString, None), w2) \<Rightarrow>
               (let msg = cmpDiff L (GoString expectedString) (GoString actualString) in
                (Inr (msg = [], msg), w2))))"

text \<open>
  \<^verbatim>\<open>CmpDiffComparator\<close> reads the actual stream with \<^verbatim>\<open>readToString\<close>, a string, and the
  expected stream with \<^verbatim>\<open>io.ReadAll\<close>, a byte slice, and hands both to \<^verbatim>\<open>cmp.Diff\<close>.
\<close>

definition ioReadAll :: "reader \<Rightarrow> world \<Rightarrow> (string \<times> string option) result \<times> world" where
  "ioReadAll r w = readAll r w"

definition CmpDiffComparator :: "golib \<Rightarrow> Comparator" where
  "CmpDiffComparator L expected actual w =
     (case readToString actual w of
        (Inl a, w1) \<Rightarrow> (Inl a, w1)
      | (Inr (actualBytes, Some err), w1) \<Rightarrow>
          (Inr (False, ''failed to read actual io.Reader: '' @ err), w1)
      | (Inr (actualBytes, None), w1) \<Rightarrow>
          (case ioReadAll expected w1 of
             (Inl a, w2) \<Rightarrow> (Inl a, w2)
           | (Inr (expectedBytes, Some err), w2) \<Rightarrow>
               (Inr (False, ''failed to read expected io.Reader: '' @ err), w2)
           | (Inr (expectedBytes, None), w2) \<Rightarrow>
               (let msg = cmpDiff L (GoBytes expectedBytes) (GoString actualBytes) in
                (Inr (msg = [], msg), w2))))"

section \<open>Storage operations\<close>

text \<open>
  An open file is its path and its offset. \<^verbatim>\<open>os.Open\<close> fails with an error for which
  \<^verbatim>\<open>os.IsNotExist\<close> holds when there is no file at the path, and with some other error
  when the oracle says so. \<^verbatim>\<open>os.Create\<close> leaves an empty file at the path.
\<close>

datatype oserror = ErrNotExist | OtherError string

definition osIsNotExist :: "oserror \<Rightarrow> bool" where
  "osIsNotExist err = (err = ErrNotExist)"

definition osOpen :: "string \<Rightarrow> world \<Rightarrow> oserror + (string \<times> nat)" where
  "osOpen p w =
     (case fault w (OpOpen p) of
        Some e \<Rightarrow> Inl (OtherError e)
      | None \<Rightarrow> (case files w p of None \<Rightarrow> Inl ErrNotExist | Some c \<Rightarrow> Inr (p, 0)))"

definition osMkdirAll :: "string \<Rightarrow> world \<Rightarrow> string option" where
  "osMkdirAll dir w = fault w (OpMkdirAll dir)"

definition osCreate :: "string \<Rightarrow> world \<Rightarrow> (string + (string \<times> nat)) \<times> world" where
  "osCreate p w =
     (case fault w (OpCreate p) of
        Some e \<Rightarrow> (Inl e, w)
      | None \<Rightarrow> (Inr (p, 0), w\<lparr>files := (files w)(p \<mapsto> [])\<rparr>))"

definition fileSeekStart :: "string \<times> nat \<Rightarrow> world \<Rightarrow> string + (string \<times> nat)" where
  "fileSeekStart file w =
     (case fault w (OpSeek (fst file)) of
        Some e \<Rightarrow> Inl e
      | None \<Rightarrow> Inr (fst file, 0))"

text \<open>
  \<^verbatim>\<open>io.Copy(io.MultiWriter(file, actualCopy), actual)\<close>: what is read from the source is
  written to the file first and to the buffer second. The result is the file with
  its new offset, the content of the buffer and the error of the copy.
\<close>

definition copyToFileAndBuffer ::
  "string \<times> nat \<Rightarrow> reader \<Rightarrow> world \<Rightarrow> ((string \<times> nat) \<times> string \<times> string option) result \<times> world" where
  "copyToFileAndBuffer file src w =
     (case readAll src w of
        (Inl a, w1) \<Rightarrow> (Inl a, w1)
      | (Inr (d, e), w1) \<Rightarrow>
          if d = [] then (Inr (file, [], e), w1)
          else (case fault w1 (OpWrite (fst file)) of
                  Some we \<Rightarrow> (Inr (file, [], Some we), w1)
                | None \<Rightarrow>
                    (Inr ((fst file, snd file + length d), d, e),
                     fileWrite (fst file) (snd file) d w1)))"

section \<open>Snapshot paths and options\<close>

text \<open>
  Of \<^verbatim>\<open>*testing.T\<close> the package reads the name of the test; \<open>callerFile\<close> is the source
  file of the test that calls \<^verbatim>\<open>GetTestInput\<close> or \<^verbatim>\<open>Match\<close>, which
  \<^verbatim>\<open>runtime.Caller(2)\<close> reports.
\<close>

record testingT =
  tName :: string
  callerFile :: string

definition getSnapshotFilePath :: "golib \<Rightarrow> testingT \<Rightarrow> string \<Rightarrow> string \<Rightarrow> string" where
  "getSnapshotFilePath L t name ext =
     filepathJoin L [filepathDir L (callerFile t), ''__snapshots__'', tName t, name @ ext]"

type_synonym SnapshotCreator = "world \<Rightarrow> (reader \<times> string option) result \<times> world"

record GetTestInputOptions =
  SnapshotName :: string
  FileExtension :: string
  CreateSnapshot :: "SnapshotCreator option"

type_synonym GetTestInputOption = "GetTestInputOptions \<Rightarrow> GetTestInputOptions"

definition WithInputSnapshotName :: "string \<Rightarrow> GetTestInputOption" where
  "WithInputSnapshotName name o' = o'\<lparr>GetTestInputOptions.SnapshotName := name\<rparr>"

definition WithInputSnapshotFileExtension :: "string \<Rightarrow> GetTestInputOption" where
  "WithInputSnapshotFileExtension ext o' = o'\<lparr>GetTestInputOptions.FileExtension := ext\<rparr>"

definition WithCreateSnapshot :: "SnapshotCreator option \<Rightarrow> GetTestInputOption" where
  "WithCreateSnapshot r o' = o'\<lparr>CreateSnapshot := r\<rparr>"

definition WithInputSnapshotReader :: "reader \<Rightarrow> GetTestInputOption" where
  "WithInputSnapshotReader r = WithCreateSnapshot (Some (\<lambda>w. (Inr (r, None), w)))"

record MatchOptions =
  SnapshotName :: string
  FileExtension :: string
  Comparator :: Comparator
  ReaderNormaliser :: ReaderNormaliser

type_synonym MatchOption = "MatchOptions \<Rightarrow> MatchOptions"

definition WithOutputSnapshotName :: "string \<Rightarrow> MatchOption" where
  "WithOutputSnapshotName name o' = o'\<lparr>MatchOptions.SnapshotName := name\<rparr>"

definition WithOutputSnapshotFileExtension :: "string \<Rightarrow> MatchOption" where
  "WithOutputSnapshotFileExtension ext o' = o'\<lparr>MatchOptions.FileExtension := ext\<rparr>"

definition WithComparator :: "Comparator \<Rightarrow> MatchOption" where
  "WithComparator cmp o' = o'\<lparr>Comparator := cmp\<rparr>"

definition WithReaderNormaliser :: "ReaderNormaliser \<Rightarrow> MatchOption" where
  "WithReaderNormaliser rn o' = o'\<lparr>ReaderNormaliser := rn\<rparr>"

definition NopReaderNormaliser :: ReaderNormaliser where
  "NopReaderNormaliser r w = (Inr r, w)"

section \<open>GetTestInput\<close>

definition inputOptions :: "GetTestInputOption list \<Rightarrow> GetTestInputOptions" where
  "inputOptions optFns =
     foldl (\<lambda>opts optFn. optFn opts)
       \<lparr>GetTestInputOptions.SnapshotName = ''input'',
        GetTestInputOptions.FileExtension = ''.txt'',
        CreateSnapshot = None\<rparr>
       optFns"

definition inputPath :: "golib \<Rightarrow> testingT \<Rightarrow> GetTestInputOption list \<Rightarrow> string" where
  "inputPath L t optFns =
     filepathClean L
       (getSnapshotFilePath L t
          (GetTestInputOptions.SnapshotName (inputOptions optFns))
          (GetTestInputOptions.FileExtension (inputOptions optFns)))"

text \<open>
  \<^verbatim>\<open>io.NopCloser(file)\<close> reads as the file does. On the path where the snapshot is
  created the result is \<^verbatim>\<open>io.TeeReader(in, file)\<close>: nothing of \<open>in\<close> has been read
  when \<^verbatim>\<open>GetTestInput\<close> returns.
\<close>

definition GetTestInput ::
  "golib \<Rightarrow> testingT \<Rightarrow> GetTestInputOption list \<Rightarrow> world \<Rightarrow> reader result \<times> world" where
  "GetTestInput L t optFns w =
     (let opts = inputOptions optFns;
          p = inputPath L t optFns;
          opened = osOpen p w;
          w1 = tLog (''input snapshot filename: '' @ p) w
      in case opened of
           Inr file \<Rightarrow> (Inr (OsFile (fst file) (snd file)), tLog ''using existing snapshot'' w1)
         | Inl err \<Rightarrow>
             if osIsNotExist err then
               (case CreateSnapshot opts of
                  None \<Rightarrow>
                    (Inl (Fatalf (''snapshot file '' @ strconvQuote L p
                            @ '' does not exist and no CreateSnapshot option was provided'')), w1)
                | Some create \<Rightarrow>
                    (case create w1 of
                       (Inl a, w2) \<Rightarrow> (Inl a, w2)
                     | (Inr (in', Some e), w2) \<Rightarrow>
                         (Inl (Fatalf (''snapshot creator failed with an error '' @ e)), w2)
                     | (Inr (in', None), w2) \<Rightarrow>
                         (let w3 = tLog ''creating new input snapshot'' w2 in
                          case osMkdirAll (filepathDir L p) w3 of
                            Some e \<Rightarrow>
                              (Inl (Fatalf (''failed to create input snapshot file '' @ p
                                      @ '': '' @ e)), w3)
                          | None \<Rightarrow>
                              (case osCreate p w3 of
                                 (Inl e, w4) \<Rightarrow>
                                   (Inl (Fatalf (''failed to open newly created snapshot file: ''
                                           @ p @ '': '' @ e)), w4)
                               | (Inr file, w4) \<Rightarrow>
                                   (Inr (TeeReader in' (fst file) (snd file)), w4)))))
             else (Inl (Fatalf ''error opening input snapshot file''), w1))"

section \<open>Match\<close>

definition matchOptions :: "golib \<Rightarrow> MatchOption list \<Rightarrow> MatchOptions" where
  "matchOptions L optFns =
     foldl (\<lambda>opts optFn. optFn opts)
       \<lparr>MatchOptions.SnapshotName = ''output'',
        MatchOptions.FileExtension = ''.txt'',
        Comparator = StringComparator L,
        ReaderNormaliser = NopReaderNormaliser\<rparr>
       optFns"

definition outputPath :: "golib \<Rightarrow> testingT \<Rightarrow> MatchOption list \<Rightarrow> string" where
  "outputPath L t optFns =
     filepathClean L
       (getSnapshotFilePath L t
          (MatchOptions.SnapshotName (matchOptions L optFns))
          (MatchOptions.FileExtension (matchOptions L optFns)))"

text \<open>
  The last statement of \<^verbatim>\<open>Match\<close>: the normaliser is applied to the expected stream,
  then to the actual stream, and the comparator is called on the two results.
\<close>

definition compareNormalised ::
  "MatchOptions \<Rightarrow> reader \<Rightarrow> reader \<Rightarrow> world \<Rightarrow> (bool \<times> string) result \<times> world" where
  "compareNormalised opts expected actual w =
     (case ReaderNormaliser opts expected w of
        (Inl a, w1) \<Rightarrow> (Inl a, w1)
      | (Inr ne, w1) \<Rightarrow>
          (case ReaderNormaliser opts actual w1 of
             (Inl a, w2) \<Rightarrow> (Inl a, w2)
           | (Inr na, w2) \<Rightarrow> Comparator opts ne na w2))"

text \<open>
  When \<^verbatim>\<open>os.Open\<close> fails with an error other than "does not exist", neither branch of
  the source assigns \<^verbatim>\<open>expected\<close>, which stays the nil reader.
\<close>

definition Match ::
  "golib \<Rightarrow> testingT \<Rightarrow> reader \<Rightarrow> MatchOption list \<Rightarrow> world \<Rightarrow> (bool \<times> string) result \<times> world" where
  "Match L t actual optFns w =
     (let opts = matchOptions L optFns;
          p = outputPath L t optFns;
          w1 = tLog (''output snapshot filename: '' @ p) w
      in case osOpen p w1 of
           Inr file \<Rightarrow>
             compareNormalised opts (OsFile (fst file) (snd file)) actual
               (tLog ''using existing snapshot'' w1)
         | Inl err \<Rightarrow>
             if osIsNotExist err then
               (let w2 = tLog ''creating new output snapshot'' w1 in
                case osMkdirAll (filepathDir L p) w2 of
                  Some e \<Rightarrow>
                    (Inl (Fatalf (''failed to create output snapshot file '' @ p
                            @ '': '' @ e)), w2)
                | None \<Rightarrow>
                    (case osCreate p w2 of
                       (Inl e, w3) \<Rightarrow>
                         (Inl (Fatalf (''failed to open newly created snapshot file: ''
                                 @ p @ '': '' @ e)), w3)
                     | (Inr file, w3) \<Rightarrow>
                         (case copyToFileAndBuffer file actual w3 of
                            (Inl a, w4) \<Rightarrow> (Inl a, w4)
                          | (Inr (file1, actualCopy, Some e), w4) \<Rightarrow>
                              (Inl (Fatalf (''failed to write to newly created snapshot file: ''
                                      @ p @ '': '' @ e)), w4)
                          | (Inr (file1, actualCopy, None), w4) \<Rightarrow>
                              (case fileSeekStart file1 w4 of
                                 Inl e \<Rightarrow>
                                   (Inl (Fatalf (''failed to seek to beginning for snapshot file: ''
                                           @ e)), w4)
                               | Inr file2 \<Rightarrow>
                                   compareNormalised opts (OsFile (fst file2) (snd file2))
                                     (MemReader actualCopy None) w4))))
             else compareNormalised opts NilReader actual w1)"

section \<open>AsJSON\<close>

text \<open>
  \<^verbatim>\<open>Encoder.Encode\<close> of \<^verbatim>\<open>encoding/json\<close> after \<^verbatim>\<open>SetIndent("", "  ")\<close>, as its
  documentation has it: the encoding of the value, followed by a newline character,
  is written to the buffer; when the value has no encoding nothing is written and the
  error is returned. The result is the buffer after the call and the error.
\<close>

definition encoderEncode :: "golib \<Rightarrow> goValue \<Rightarrow> string \<Rightarrow> string \<times> string option" where
  "encoderEncode L v buf =
     (case jsonMarshalIndent L v of
        Inl e \<Rightarrow> (buf, Some e)
      | Inr s \<Rightarrow> (buf @ s @ [CHR 0x0A], None))"

text \<open>
  The second half of \<^verbatim>\<open>AsJSON\<close>: a new buffer, the call of \<^verbatim>\<open>Encode\<close>, the wrapping of
  its error; the buffer is returned in both cases.
\<close>

definition encodeIndented :: "golib \<Rightarrow> goValue \<Rightarrow> (reader \<times> string option) result" where
  "encodeIndented L v =
     (case encoderEncode L v [] of
        (buf, Some e) \<Rightarrow>
          Inr (MemReader buf None, Some (''failed to encode snapshot as JSON: '' @ e))
      | (buf, None) \<Rightarrow> Inr (MemReader buf None, None))"

text \<open>
  A function value is called with an empty argument list. Package \<^verbatim>\<open>reflect\<close> panics
  when the function has more parameters than that, the variadic one not counted: a
  function whose only parameter is variadic is called. With a number of results other
  than one the named result \<^verbatim>\<open>out\<close> is still nil when \<^verbatim>\<open>AsJSON\<close> returns the error.
\<close>

definition AsJSON :: "golib \<Rightarrow> goValue \<Rightarrow> (reader \<times> string option) result" where
  "AsJSON L i =
     (case i of
        GoFunc numIn variadic res \<Rightarrow>
          if (if variadic then numIn - 1 else numIn) \<noteq> 0
          then Inl (Panic ''reflect: Call with too few input arguments'')
          else if length res \<noteq> 1
          then Inr (NilReader, Some ''callable arguments to AsJSON must return a single value'')
          else encodeIndented L (hd res)
      | _ \<Rightarrow> encodeIndented L i)"


section \<open>A sample library, test and world\<close>

text \<open>
  One instance of the library parameters, on which the definitions can be run. Bytes
  from \<open>0x80\<close> on are quoted one by one as \<^verbatim>\<open>\x\<close> and two digits, paths are joined
  with a slash, the report of a difference is a fixed text, and the encoder covers
  \<^verbatim>\<open>nil\<close>, strings without characters that need escaping, and structs of such
  strings; channels and functions have no encoding, as in \<^verbatim>\<open>encoding/json\<close>.
\<close>

fun sampleFields :: "(string \<times> goValue) list \<Rightarrow> string list option" where
  "sampleFields [] = Some []"
| "sampleFields ((k, GoString s) # fs) =
     map_option
       ((#) (''  '' @ [CHR 0x22] @ k @ [CHR 0x22] @ '': '' @ [CHR 0x22] @ s @ [CHR 0x22]))
       (sampleFields fs)"
| "sampleFields (f # fs) = None"

fun sampleJoin :: "string \<Rightarrow> string list \<Rightarrow> string" where
  "sampleJoin sep [] = []"
| "sampleJoin sep [x] = x"
| "sampleJoin sep (x # y # ys) = x @ sep @ sampleJoin sep (y # ys)"

definition sampleJSON :: "goValue \<Rightarrow> string + string" where
  "sampleJSON v =
     (case v of
        GoNil \<Rightarrow> Inr ''null''
      | GoString s \<Rightarrow> Inr ([CHR 0x22] @ s @ [CHR 0x22])
      | GoStruct fs \<Rightarrow>
          (case sampleFields fs of
             None \<Rightarrow> Inl ''value outside the sample''
           | Some [] \<Rightarrow> Inr ''{}''
           | Some ls \<Rightarrow> Inr (''{'' @ [CHR 0x0A] @ sampleJoin ('','' @ [CHR 0x0A]) ls @ [CHR 0x0A] @ ''}''))
      | GoChan \<Rightarrow> Inl ''json: unsupported type: chan int''
      | GoFunc n variadic res \<Rightarrow> Inl ''json: unsupported type: func()''
      | _ \<Rightarrow> Inl ''value outside the sample'')"

definition sampleLib :: golib where
  "sampleLib =
     \<lparr>quoteRune = (\<lambda>s. ([CHR 0x5C, CHR ''x'',
                          lowerhex ((of_char (hd s) :: nat) div 16),
                          lowerhex (of_char (hd s))], 1)),
      filepathJoin = sampleJoin ''/'',
      filepathDir = (\<lambda>s. rev (drop 1 (dropWhile (\<lambda>c. c \<noteq> CHR ''/'') (rev s)))),
      filepathClean = (\<lambda>s. s),
      cmpReport = (\<lambda>x y. ''values differ''),
      jsonMarshalIndent = sampleJSON\<rparr>"

text \<open>A comparator that rejects every pair of streams.\<close>

definition rejectAll :: Comparator where
  "rejectAll expected actual w = (Inr (False, ''rejected''), w)"

definition sampleT :: testingT where
  "sampleT = \<lparr>tName = ''TestSample'', callerFile = ''/src/snapshot_test.go''\<rparr>"

definition freshWorld :: world where
  "freshWorld = \<lparr>files = (\<lambda>p. None), fault = (\<lambda>op. None), tlog = []\<rparr>"




section \<open>Reading streams\<close>

text \<open>
  Reading a stream without a nil reader returns; reading does not touch the log or the
  fault oracle, and it neither sees nor changes a file the stream has no handle on.
\<close>

lemma readAll_nonNil: "nonNil r \<Longrightarrow> \<exists>d e w'. readAll r w = (Inr (d, e), w')"
proof (induction r arbitrary: w)
  case (TeeReader r p off)
  then obtain d e w1 where "readAll r w = (Inr (d, e), w1)" by fastforce
  then show ?case by (auto split: option.splits)
qed (auto split: option.splits)

lemma readAll_tlog:
  "readAll r (w\<lparr>tlog := l\<rparr>) = (fst (readAll r w), (snd (readAll r w))\<lparr>tlog := l\<rparr>)"
proof (induction r arbitrary: w)
  case (TeeReader r p off)
  show ?case
    by (simp add: TeeReader.IH [of w] fileWrite_def split: prod.splits sum.splits option.splits)
qed (auto split: option.splits)

lemma readAll_fault: "readAll r w = (x, w') \<Longrightarrow> fault w' = fault w"
proof (induction r arbitrary: w x w')
  case (TeeReader r p off)
  obtain y w1 where r: "readAll r w = (y, w1)" by (cases "readAll r w")
  from TeeReader.IH [OF r] TeeReader.prems r show ?case
    by (auto simp: fileWrite_def split: option.splits sum.splits if_splits)
qed (auto split: option.splits)

text \<open>A stream does not see, and does not change, a file it has no handle on.\<close>

lemma fileWrite_other_file:
  "p \<noteq> q \<Longrightarrow>
   fileWrite q off d (w\<lparr>files := (files w)(p := c)\<rparr>) =
     (fileWrite q off d w)\<lparr>files := (files (fileWrite q off d w))(p := c)\<rparr>"
  by (simp add: fileWrite_def fun_upd_twist split: option.splits)

lemma readAll_other_file:
  "p \<notin> readerPaths r \<Longrightarrow> readAll r w = (x, w') \<Longrightarrow>
   readAll r (w\<lparr>files := (files w)(p := c)\<rparr>) = (x, w'\<lparr>files := (files w')(p := c)\<rparr>)"
proof (induction r arbitrary: w x w')
  case (TeeReader r q off)
  obtain y w1 where r: "readAll r w = (y, w1)" by (cases "readAll r w")
  from TeeReader.prems have pq: "p \<noteq> q" and "p \<notin> readerPaths r" by auto
  then have r': "readAll r (w\<lparr>files := (files w)(p := c)\<rparr>) = (y, w1\<lparr>files := (files w1)(p := c)\<rparr>)"
    using TeeReader.IH r by blast
  show ?case
  proof (cases y)
    case (Inl a)
    with TeeReader.prems(2) r r' show ?thesis by (auto simp del: fun_upd_apply)
  next
    case (Inr de)
    obtain d e where de: "de = (d, e)" by (cases de)
    show ?thesis
    proof (cases "d = []")
      case True
      with Inr de TeeReader.prems(2) r r' show ?thesis by (auto simp del: fun_upd_apply)
    next
      case False
      show ?thesis
      proof (cases "fault w1 (OpWrite q)")
        case None
        with False Inr de TeeReader.prems(2) r r' pq show ?thesis
          by (auto simp add: fileWrite_other_file simp del: fun_upd_apply)
      next
        case (Some we)
        with False Inr de TeeReader.prems(2) r r' show ?thesis by (auto simp del: fun_upd_apply)
      qed
    qed
  qed
next
  case (OsFile q off)
  then show ?case by (auto split: option.splits)
qed auto

section \<open>The comparison result of the built-in comparators\<close>

lemma StringComparator_invariant:
  assumes "nonNil expected" and "nonNil actual"
  shows "\<exists>ok msg w'. StringComparator L expected actual w = (Inr (ok, msg), w') \<and> (msg = [] \<longleftrightarrow> ok)"
proof -
  obtain d e w1 where r1: "readAll expected w = (Inr (d, e), w1)"
    using readAll_nonNil [OF assms(1)] by blast
  obtain d' e' w2 where r2: "readAll actual w1 = (Inr (d', e'), w2)"
    using readAll_nonNil [OF assms(2)] by blast
  show ?thesis
    by (cases e; cases e') (auto simp: StringComparator_def readToString_def r1 r2 Let_def)
qed

lemma StringDiffComparator_invariant:
  assumes "nonNil expected" and "nonNil actual"
  shows "\<exists>ok msg w'. StringDiffComparator L expected actual w = (Inr (ok, msg), w') \<and> (msg = [] \<longleftrightarrow> ok)"
proof -
  obtain d e w1 where r1: "readAll actual w = (Inr (d, e), w1)"
    using readAll_nonNil [OF assms(2)] by blast
  obtain d' e' w2 where r2: "readAll expected w1 = (Inr (d', e'), w2)"
    using readAll_nonNil [OF assms(1)] by blast
  show ?thesis
    by (cases e; cases e') (auto simp: StringDiffComparator_def readToString_def r1 r2 Let_def)
qed

lemma CmpDiffComparator_invariant:
  assumes "nonNil expected" and "nonNil actual"
  shows "\<exists>ok msg w'. CmpDiffComparator L expected actual w = (Inr (ok, msg), w') \<and> (msg = [] \<longleftrightarrow> ok)"
proof -
  obtain d e w1 where r1: "readAll actual w = (Inr (d, e), w1)"
    using readAll_nonNil [OF assms(2)] by blast
  obtain d' e' w2 where r2: "readAll expected w1 = (Inr (d', e'), w2)"
    using readAll_nonNil [OF assms(1)] by blast
  show ?thesis
    by (cases e; cases e')
      (auto simp: CmpDiffComparator_def readToString_def ioReadAll_def r1 r2 Let_def)
qed

text \<open>
  Claim C8. For every pair of streams (neither of them, nor a stream they wrap, the nil
  reader), each of \<^verbatim>\<open>StringComparator\<close>, \<^verbatim>\<open>StringDiffComparator\<close> and
  \<^verbatim>\<open>CmpDiffComparator\<close> returns a pair \<open>(ok, msg)\<close> in which \<open>msg\<close> is empty if and
  only if \<open>ok\<close> is true. Read failures are among the results covered: a stream may
  end with an error.
\<close>

theorem comparison_result_invariant:
  assumes "nonNil expected" and "nonNil actual"
    and "cmp = StringComparator L \<or> cmp = StringDiffComparator L \<or> cmp = CmpDiffComparator L"
  shows "\<exists>ok msg w'. cmp expected actual w = (Inr (ok, msg), w') \<and> (msg = [] \<longleftrightarrow> ok)"
  using assms StringComparator_invariant StringDiffComparator_invariant CmpDiffComparator_invariant
  by metis

theorem comparison_result_invariant_witness:
  "(\<exists>ok msg w'.
      StringComparator sampleLib (MemReader ''hello'' None)
        (MemReader ''wor'' (Some ''unexpected EOF'')) freshWorld = (Inr (ok, msg), w')
      \<and> (msg = [] \<longleftrightarrow> ok))
   \<and> (\<exists>ok msg w'.
      StringDiffComparator sampleLib (MemReader ''hello'' None)
        (MemReader ''world'' None) freshWorld = (Inr (ok, msg), w')
      \<and> (msg = [] \<longleftrightarrow> ok))
   \<and> (\<exists>ok msg w'.
      CmpDiffComparator sampleLib (MemReader ''hello'' None)
        (MemReader ''hello'' None) freshWorld = (Inr (ok, msg), w')
      \<and> (msg = [] \<longleftrightarrow> ok))"
proof -
  have n1: "nonNil (MemReader ''hello'' None)"
    and n2: "nonNil (MemReader ''wor'' (Some ''unexpected EOF''))"
    and n3: "nonNil (MemReader ''world'' None)"
    by simp_all
  show ?thesis
    using comparison_result_invariant [OF n1 n2, of "StringComparator sampleLib" sampleLib freshWorld]
      comparison_result_invariant [OF n1 n3, of "StringDiffComparator sampleLib" sampleLib freshWorld]
      comparison_result_invariant [OF n1 n1, of "CmpDiffComparator sampleLib" sampleLib freshWorld]
    by simp
qed

text \<open>
  Claim C7. When reading the expected or the actual stream fails, each built-in
  comparator returns \<open>ok = False\<close> with a message that names the side whose reading
  failed and ends with the text of the error. \<^verbatim>\<open>StringComparator\<close> reads the expected
  stream first, \<^verbatim>\<open>StringDiffComparator\<close> and \<^verbatim>\<open>CmpDiffComparator\<close> read the actual stream
  first; the message is about the first reading that fails.
\<close>

theorem read_failure_reported:
  "(readAll expected w = (Inr (d, Some err), w1) \<longrightarrow>
      StringComparator L expected actual w =
        (Inr (False, ''failed to read expected data from reader: '' @ err), w1))
   \<and> (readAll expected w = (Inr (d, None), w1) \<and> readAll actual w1 = (Inr (d', Some err), w2) \<longrightarrow>
      StringComparator L expected actual w =
        (Inr (False, ''failed to read actual data from reader: '' @ err), w2))
   \<and> (readAll actual w = (Inr (d, Some err), w1) \<longrightarrow>
      StringDiffComparator L expected actual w =
        (Inr (False, ''failed to read actual io.Reader: '' @ err), w1)
      \<and> CmpDiffComparator L expected actual w =
        (Inr (False, ''failed to read actual io.Reader: '' @ err), w1))
   \<and> (readAll actual w = (Inr (d, None), w1) \<and> readAll expected w1 = (Inr (d', Some err), w2) \<longrightarrow>
      StringDiffComparator L expected actual w =
        (Inr (False, ''failed to read expected io.Reader: '' @ err), w2)
      \<and> CmpDiffComparator L expected actual w =
        (Inr (False, ''failed to read expected io.Reader: '' @ err), w2))"
  by (simp add: StringComparator_def StringDiffComparator_def CmpDiffComparator_def
      readToString_def ioReadAll_def)

theorem read_failure_reported_witness:
  "StringComparator sampleLib (MemReader ''he'' (Some ''unexpected EOF'')) (MemReader ''hello'' None) freshWorld
     = (Inr (False, ''failed to read expected data from reader: unexpected EOF''), freshWorld)
   \<and> StringComparator sampleLib (MemReader ''hello'' None) (MemReader ''he'' (Some ''unexpected EOF'')) freshWorld
     = (Inr (False, ''failed to read actual data from reader: unexpected EOF''), freshWorld)
   \<and> StringDiffComparator sampleLib (MemReader ''hello'' None) (MemReader ''he'' (Some ''unexpected EOF'')) freshWorld
     = (Inr (False, ''failed to read actual io.Reader: unexpected EOF''), freshWorld)
   \<and> CmpDiffComparator sampleLib (MemReader ''hello'' None) (MemReader ''he'' (Some ''unexpected EOF'')) freshWorld
     = (Inr (False, ''failed to read actual io.Reader: unexpected EOF''), freshWorld)
   \<and> StringDiffComparator sampleLib (MemReader ''he'' (Some ''unexpected EOF'')) (MemReader ''hello'' None) freshWorld
     = (Inr (False, ''failed to read expected io.Reader: unexpected EOF''), freshWorld)
   \<and> CmpDiffComparator sampleLib (MemReader ''he'' (Some ''unexpected EOF'')) (MemReader ''hello'' None) freshWorld
     = (Inr (False, ''failed to read expected io.Reader: unexpected EOF''), freshWorld)"
proof -
  let ?bad = "MemReader ''he'' (Some ''unexpected EOF'')"
  let ?good = "MemReader ''hello'' None"
  note r = read_failure_reported [where L = sampleLib and w = freshWorld and ?w1.0 = freshWorld
      and ?w2.0 = freshWorld and err = "''unexpected EOF''"]
  show ?thesis
    using r [where expected = ?bad and actual = ?good and d = "''he''" and d' = "''hello''"]
      r [where expected = ?good and actual = ?bad and d = "''hello''" and d' = "''he''"]
      r [where expected = ?good and actual = ?bad and d = "''he''" and d' = "''hello''"]
      r [where expected = ?bad and actual = ?good and d = "''hello''" and d' = "''he''"]
    by simp
qed

section \<open>The diff comparators\<close>

text \<open>
  \<^verbatim>\<open>StringDiffComparator\<close> passes exactly on equal contents, given that go-cmp reports a
  difference of unequal values as a non-empty text.
\<close>

lemma StringDiffComparator_contract:
  assumes "readAll actual w = (Inr (A, None), w1)" and "readAll expected w1 = (Inr (E, None), w2)"
  shows "StringDiffComparator L expected actual w =
           (Inr (if E = A then (True, [])
                 else (cmpReport L (GoString E) (GoString A) = [],
                       cmpReport L (GoString E) (GoString A))), w2)"
  using assms
  by (auto simp: StringDiffComparator_def readToString_def cmpDiff_def cmpEqual_def Let_def)

text \<open>
  Claim C6 (the code departs from it). \<^verbatim>\<open>CmpDiffComparator\<close> compares a byte slice with
  a string. For go-cmp values of different types are never equal, so the result does
  not depend on whether the two streams have the same contents: it is the report of
  go-cmp on a byte slice and a string. On two streams that both hold \<^verbatim>\<open>hello\<close> the
  comparator fails, where \<^verbatim>\<open>StringDiffComparator\<close> passes.
\<close>

theorem CmpDiffComparator_fails_on_equal_contents:
  "CmpDiffComparator L (MemReader E None) (MemReader A None) w =
     (Inr (cmpReport L (GoBytes E) (GoString A) = [], cmpReport L (GoBytes E) (GoString A)), w)
   \<and> CmpDiffComparator sampleLib (MemReader ''hello'' None) (MemReader ''hello'' None) freshWorld =
       (Inr (False, ''values differ''), freshWorld)
   \<and> StringDiffComparator sampleLib (MemReader ''hello'' None) (MemReader ''hello'' None) freshWorld =
       (Inr (True, []), freshWorld)"
  by (simp add: CmpDiffComparator_def StringDiffComparator_def readToString_def ioReadAll_def
      cmpDiff_def cmpEqual_def Let_def sampleLib_def)

section \<open>Match against an existing snapshot\<close>

lemma readAll_logged:
  "readAll r w = (x, w') \<Longrightarrow> readAll r (w\<lparr>tlog := l\<rparr>) = (x, w'\<lparr>tlog := l\<rparr>)"
  by (simp add: readAll_tlog)

lemma strconvQuote_hello: "strconvQuote L ''hello'' = [CHR 0x22] @ ''hello'' @ [CHR 0x22]"
  by (simp add: strconvQuote_def escapeASCII_def)

lemma strconvQuote_world: "strconvQuote L ''world'' = [CHR 0x22] @ ''world'' @ [CHR 0x22]"
  by (simp add: strconvQuote_def escapeASCII_def)

lemma Match_existing:
  assumes "files w (outputPath L t optFns) = Some E"
    and "fault w (OpOpen (outputPath L t optFns)) = None"
  shows "Match L t actual optFns w =
           compareNormalised (matchOptions L optFns) (OsFile (outputPath L t optFns) 0) actual
             (w\<lparr>tlog := tlog w @ [''output snapshot filename: '' @ outputPath L t optFns,
                                   ''using existing snapshot'']\<rparr>)"
  using assms by (simp add: Match_def osOpen_def tLog_def Let_def)

lemma StringComparator_file:
  assumes "files w p = Some E" and "fault w (OpRead p) = None"
    and "readAll actual w = (Inr (A, None), w')"
  shows "StringComparator L (OsFile p 0) actual w =
           (Inr (E = A, if E = A then []
                        else ''expected '' @ strconvQuote L E @ '', got '' @ strconvQuote L A), w')"
  using assms by (simp add: StringComparator_def readToString_def Let_def)

text \<open>
  Claim C2. With the default comparator (and the default, identity normaliser), an
  existing snapshot of text \<open>E\<close> that can be opened and read, and an actual stream
  that reads as the text \<open>A\<close>, \<^verbatim>\<open>Match\<close> returns true exactly when \<open>E = A\<close>, with an
  empty message; on a mismatch the message is \<^verbatim>\<open>expected\<close>, the quoted \<open>E\<close>,
  \<^verbatim>\<open>, got\<close> and the quoted \<open>A\<close>. With \<^verbatim>\<open>hello\<close> persisted and \<^verbatim>\<open>world\<close> as actual the
  result is false with the message \<^verbatim>\<open>expected "hello", got "world"\<close>.
\<close>

theorem Match_default_comparator:
  assumes "Comparator (matchOptions L optFns) = StringComparator L"
    and "ReaderNormaliser (matchOptions L optFns) = NopReaderNormaliser"
    and "files w (outputPath L t optFns) = Some E"
    and "fault w (OpOpen (outputPath L t optFns)) = None"
    and "fault w (OpRead (outputPath L t optFns)) = None"
    and "readAll actual w = (Inr (A, None), w')"
  shows "Match L t actual optFns w =
           (Inr (E = A, if E = A then []
                        else ''expected '' @ strconvQuote L E @ '', got '' @ strconvQuote L A),
            w'\<lparr>tlog := tlog w @ [''output snapshot filename: '' @ outputPath L t optFns,
                                    ''using existing snapshot'']\<rparr>)
         \<and> (E = ''hello'' \<and> A = ''world'' \<longrightarrow>
              fst (Match L t actual optFns w) =
                Inr (False, ''expected '' @ [CHR 0x22] @ ''hello'' @ [CHR 0x22]
                              @ '', got '' @ [CHR 0x22] @ ''world'' @ [CHR 0x22]))"
proof -
  let ?p = "outputPath L t optFns"
  let ?l = "tlog w @ [''output snapshot filename: '' @ ?p, ''using existing snapshot'']"
  have m: "Match L t actual optFns w =
             StringComparator L (OsFile ?p 0) actual (w\<lparr>tlog := ?l\<rparr>)"
    using assms(1,2) by (simp add: Match_existing [OF assms(3,4)] compareNormalised_def NopReaderNormaliser_def)
  have r: "readAll actual (w\<lparr>tlog := ?l\<rparr>) = (Inr (A, None), w'\<lparr>tlog := ?l\<rparr>)"
    using assms(6) by (rule readAll_logged)
  have c: "StringComparator L (OsFile ?p 0) actual (w\<lparr>tlog := ?l\<rparr>) =
             (Inr (E = A, if E = A then []
                          else ''expected '' @ strconvQuote L E @ '', got '' @ strconvQuote L A),
              w'\<lparr>tlog := ?l\<rparr>)"
    using assms(3,5) by (intro StringComparator_file [OF _ _ r]) simp_all
  show ?thesis
    unfolding m c by (simp add: strconvQuote_hello strconvQuote_world)
qed

theorem Match_default_comparator_witness:
  "Match sampleLib sampleT (MemReader ''world'' None) []
     (freshWorld\<lparr>files := (files freshWorld)(''/src/__snapshots__/TestSample/output.txt'' \<mapsto> ''hello'')\<rparr>)
   = (Inr (False, ''expected '' @ [CHR 0x22] @ ''hello'' @ [CHR 0x22]
                              @ '', got '' @ [CHR 0x22] @ ''world'' @ [CHR 0x22]),
      freshWorld\<lparr>files := (files freshWorld)(''/src/__snapshots__/TestSample/output.txt'' \<mapsto> ''hello''),
                 tlog := [''output snapshot filename: /src/__snapshots__/TestSample/output.txt'',
                          ''using existing snapshot'']\<rparr>)
   \<and> fst (Match sampleLib sampleT (MemReader ''hello'' None) []
     (freshWorld\<lparr>files := (files freshWorld)(''/src/__snapshots__/TestSample/output.txt'' \<mapsto> ''hello'')\<rparr>))
     = Inr (True, [])"
proof -
  let ?w = "freshWorld\<lparr>files := (files freshWorld)(''/src/__snapshots__/TestSample/output.txt'' \<mapsto> ''hello'')\<rparr>"
  have p: "outputPath sampleLib sampleT [] = ''/src/__snapshots__/TestSample/output.txt''"
    by (simp add: outputPath_def matchOptions_def getSnapshotFilePath_def sampleLib_def sampleT_def)
  have a: "Comparator (matchOptions sampleLib []) = StringComparator sampleLib"
    and b: "ReaderNormaliser (matchOptions sampleLib []) = NopReaderNormaliser"
    by (simp_all add: matchOptions_def)
  have c: "files ?w (outputPath sampleLib sampleT []) = Some ''hello''"
    and d: "fault ?w (OpOpen (outputPath sampleLib sampleT [])) = None"
    and e: "fault ?w (OpRead (outputPath sampleLib sampleT [])) = None"
    by (simp_all add: p freshWorld_def)
  have f: "readAll (MemReader ''world'' None) ?w = (Inr (''world'', None), ?w)"
    and g: "readAll (MemReader ''hello'' None) ?w = (Inr (''hello'', None), ?w)"
    by simp_all
  show ?thesis
    using Match_default_comparator [OF a b c d e f] Match_default_comparator [OF a b c d e g]
    by (simp add: p strconvQuote_hello strconvQuote_world freshWorld_def)
qed

section \<open>Match without a snapshot\<close>

lemma writeAt_empty: "writeAt [] 0 d = d"
  by (simp add: writeAt_def)

lemma copyToFileAndBuffer_fresh:
  assumes "p \<notin> readerPaths actual"
    and "readAll actual w = (Inr (d, None), w')"
    and "d = [] \<or> fault w (OpWrite p) = None"
  shows "copyToFileAndBuffer (p, 0) actual (w\<lparr>files := (files w)(p \<mapsto> [])\<rparr>) =
           (Inr ((p, length d), d, None), w'\<lparr>files := (files w')(p \<mapsto> d)\<rparr>)"
proof -
  have r: "readAll actual (w\<lparr>files := (files w)(p \<mapsto> [])\<rparr>) =
             (Inr (d, None), w'\<lparr>files := (files w')(p \<mapsto> [])\<rparr>)"
    using assms(1,2) by (rule readAll_other_file)
  have f: "fault w' = fault w"
    using assms(2) by (rule readAll_fault)
  show ?thesis
  proof (cases "d = []")
    case True
    then show ?thesis by (simp add: copyToFileAndBuffer_def r del: fun_upd_apply)
  next
    case False
    with assms(3) have "fault w (OpWrite p) = None" by simp
    with False show ?thesis
      by (simp add: copyToFileAndBuffer_def r f fileWrite_def writeAt_empty)
  qed
qed

lemma Match_created:
  assumes absent: "files w (outputPath L t optFns) = None"
    and "fault w (OpOpen (outputPath L t optFns)) = None"
    and "fault w (OpMkdirAll (filepathDir L (outputPath L t optFns))) = None"
    and "fault w (OpCreate (outputPath L t optFns)) = None"
    and "fault w (OpSeek (outputPath L t optFns)) = None"
    and "d = [] \<or> fault w (OpWrite (outputPath L t optFns)) = None"
    and "outputPath L t optFns \<notin> readerPaths actual"
    and "readAll actual w = (Inr (d, None), w')"
  shows "Match L t actual optFns w =
           compareNormalised (matchOptions L optFns)
             (OsFile (outputPath L t optFns) 0) (MemReader d None)
             (w'\<lparr>files := (files w')(outputPath L t optFns \<mapsto> d),
                 tlog := tlog w @ [''output snapshot filename: '' @ outputPath L t optFns,
                                   ''creating new output snapshot'']\<rparr>)"
proof -
  let ?p = "outputPath L t optFns"
  let ?l = "tlog w @ [''output snapshot filename: '' @ ?p, ''creating new output snapshot'']"
  have c: "copyToFileAndBuffer (?p, 0) actual (w\<lparr>tlog := l, files := (files w)(?p \<mapsto> [])\<rparr>) =
             (Inr ((?p, length d), d, None), w'\<lparr>files := (files w')(?p \<mapsto> d), tlog := l\<rparr>)" for l
    using copyToFileAndBuffer_fresh [OF assms(7) readAll_logged [OF assms(8)], of l] assms(6)
    by simp
  have f: "fault w' = fault w"
    using assms(8) by (rule readAll_fault)
  show ?thesis
    using assms(1-5)
    by (simp add: Match_def Let_def osOpen_def tLog_def osIsNotExist_def osMkdirAll_def osCreate_def
        c fileSeekStart_def f del: fun_upd_apply)
qed

text \<open>
  Claim C1, as stated, fails: without a snapshot \<^verbatim>\<open>Match\<close> still returns what the
  configured comparator returns, and a comparator that rejects everything makes the
  first run fail.
\<close>

theorem rejecting_comparator_fails_first_run:
  "fst (Match sampleLib sampleT (MemReader ''hello'' None) [WithComparator rejectAll] freshWorld)
     = Inr (False, ''rejected'')"
  by (simp add: Match_def Let_def outputPath_def matchOptions_def getSnapshotFilePath_def
      sampleLib_def sampleT_def freshWorld_def WithComparator_def rejectAll_def osOpen_def
      tLog_def osIsNotExist_def osMkdirAll_def osCreate_def copyToFileAndBuffer_def
      fileWrite_def fileSeekStart_def compareNormalised_def NopReaderNormaliser_def)

text \<open>
  Claim C1, amended. Let no snapshot exist at the resolved path, let the storage
  operations succeed, and let the actual stream, which has no handle on the snapshot
  file, read as the bytes \<open>d\<close> without an error. Then \<^verbatim>\<open>Match\<close> leaves a snapshot whose
  bytes are \<open>d\<close> and returns what the configured comparator returns on the normalised
  snapshot file and the normalised in-memory copy of \<open>d\<close>; with the default comparator
  and the default normaliser (and a readable snapshot file) that is \<open>(True, [])\<close>.
\<close>

theorem Match_first_run:
  assumes "files w (outputPath L t optFns) = None"
    and "fault w (OpOpen (outputPath L t optFns)) = None"
    and "fault w (OpMkdirAll (filepathDir L (outputPath L t optFns))) = None"
    and "fault w (OpCreate (outputPath L t optFns)) = None"
    and "fault w (OpSeek (outputPath L t optFns)) = None"
    and "d = [] \<or> fault w (OpWrite (outputPath L t optFns)) = None"
    and "outputPath L t optFns \<notin> readerPaths actual"
    and "readAll actual w = (Inr (d, None), w')"
    and "persisted =
           w'\<lparr>files := (files w')(outputPath L t optFns \<mapsto> d),
               tlog := tlog w @ [''output snapshot filename: '' @ outputPath L t optFns,
                                 ''creating new output snapshot'']\<rparr>"
  shows "files persisted (outputPath L t optFns) = Some d
         \<and> Match L t actual optFns w =
             compareNormalised (matchOptions L optFns)
               (OsFile (outputPath L t optFns) 0) (MemReader d None) persisted
         \<and> (Comparator (matchOptions L optFns) = StringComparator L
              \<and> ReaderNormaliser (matchOptions L optFns) = NopReaderNormaliser
              \<and> fault w (OpRead (outputPath L t optFns)) = None
              \<longrightarrow> Match L t actual optFns w = (Inr (True, []), persisted))"
proof -
  have f: "fault w' = fault w"
    using assms(8) by (rule readAll_fault)
  have m: "Match L t actual optFns w =
             compareNormalised (matchOptions L optFns)
               (OsFile (outputPath L t optFns) 0) (MemReader d None) persisted"
    unfolding assms(9) using assms(1-8) by (rule Match_created)
  show ?thesis
    unfolding m
    by (simp add: assms(9) f compareNormalised_def NopReaderNormaliser_def StringComparator_def
        readToString_def)
qed

theorem Match_first_run_witness:
  "Match sampleLib sampleT (MemReader ''hello'' None) [] freshWorld =
     (Inr (True, []),
      freshWorld
        \<lparr>files := (files freshWorld)(''/src/__snapshots__/TestSample/output.txt'' \<mapsto> ''hello''),
         tlog := [''output snapshot filename: /src/__snapshots__/TestSample/output.txt'',
                  ''creating new output snapshot'']\<rparr>)"
proof -
  have p: "outputPath sampleLib sampleT [] = ''/src/__snapshots__/TestSample/output.txt''"
    by (simp add: outputPath_def matchOptions_def getSnapshotFilePath_def sampleLib_def sampleT_def)
  have o: "Comparator (matchOptions sampleLib []) = StringComparator sampleLib"
    "ReaderNormaliser (matchOptions sampleLib []) = NopReaderNormaliser"
    by (simp_all add: matchOptions_def)
  let ?p = "outputPath sampleLib sampleT []"
  let ?W = "freshWorld
        \<lparr>files := (files freshWorld)(''/src/__snapshots__/TestSample/output.txt'' \<mapsto> ''hello''),
         tlog := [''output snapshot filename: /src/__snapshots__/TestSample/output.txt'',
                  ''creating new output snapshot'']\<rparr>"
  have h: "files freshWorld ?p = None" "fault freshWorld (OpOpen ?p) = None"
    "fault freshWorld (OpMkdirAll (filepathDir sampleLib ?p)) = None"
    "fault freshWorld (OpCreate ?p) = None" "fault freshWorld (OpSeek ?p) = None"
    "''hello'' = [] \<or> fault freshWorld (OpWrite ?p) = None"
    "?p \<notin> readerPaths (MemReader ''hello'' None)"
    "readAll (MemReader ''hello'' None) freshWorld = (Inr (''hello'', None), freshWorld)"
    by (simp_all add: freshWorld_def)
  have W: "?W = freshWorld\<lparr>files := (files freshWorld)(?p \<mapsto> ''hello''),
               tlog := tlog freshWorld @ [''output snapshot filename: '' @ ?p,
                                          ''creating new output snapshot'']\<rparr>"
    by (simp add: p freshWorld_def)
  have r: "fault freshWorld (OpRead ?p) = None"
    by (simp add: freshWorld_def)
  from Match_first_run [OF h W] o r show ?thesis
    by blast
qed

section \<open>Fixtures: GetTestInput\<close>

lemma GetTestInput_existing:
  assumes "files w (inputPath L t optFns) = Some c"
    and "fault w (OpOpen (inputPath L t optFns)) = None"
  shows "GetTestInput L t optFns w =
           (Inr (OsFile (inputPath L t optFns) 0),
            w\<lparr>tlog := tlog w @ [''input snapshot filename: '' @ inputPath L t optFns,
                                  ''using existing snapshot'']\<rparr>)"
  using assms by (simp add: GetTestInput_def osOpen_def tLog_def Let_def)

lemma GetTestInput_created:
  assumes "files w (inputPath L t optFns) = None"
    and "fault w (OpOpen (inputPath L t optFns)) = None"
    and "CreateSnapshot (inputOptions optFns) = Some create"
    and "create (w\<lparr>tlog := tlog w @ [''input snapshot filename: '' @ inputPath L t optFns]\<rparr>)
           = (Inr (src, None), wg)"
    and "fault wg (OpMkdirAll (filepathDir L (inputPath L t optFns))) = None"
    and "fault wg (OpCreate (inputPath L t optFns)) = None"
  shows "GetTestInput L t optFns w =
           (Inr (TeeReader src (inputPath L t optFns) 0),
            wg\<lparr>files := (files wg)(inputPath L t optFns \<mapsto> []),
               tlog := tlog wg @ [''creating new input snapshot'']\<rparr>)"
  using assms
  by (simp add: GetTestInput_def osOpen_def tLog_def Let_def osIsNotExist_def osMkdirAll_def
      osCreate_def)

lemma TeeReader_drained:
  assumes "p \<notin> readerPaths src"
    and "readAll src w = (Inr (d, e), w')"
    and "d = [] \<or> fault w (OpWrite p) = None"
  shows "readAll (TeeReader src p 0) (w\<lparr>files := (files w)(p \<mapsto> []), tlog := l\<rparr>) =
           (Inr (d, e), w'\<lparr>files := (files w')(p \<mapsto> d), tlog := l\<rparr>)"
proof -
  have r: "readAll src (w\<lparr>files := (files w)(p \<mapsto> []), tlog := l\<rparr>) =
             (Inr (d, e), w'\<lparr>files := (files w')(p \<mapsto> []), tlog := l\<rparr>)"
    using readAll_logged [OF readAll_other_file [OF assms(1,2)]] .
  have f: "fault w' = fault w"
    using assms(2) by (rule readAll_fault)
  show ?thesis
  proof (cases "d = []")
    case True
    then show ?thesis by (simp add: r del: fun_upd_apply)
  next
    case False
    with assms(3) have "fault w (OpWrite p) = None" by simp
    with False show ?thesis
      by (simp add: r f fileWrite_def writeAt_empty)
  qed
qed

text \<open>
  Claim C4. When no fixture exists at the resolved path and the options leave
  \<^verbatim>\<open>CreateSnapshot\<close> nil, \<^verbatim>\<open>GetTestInput\<close> ends in \<^verbatim>\<open>t.Fatalf\<close>: it stops the calling
  test and returns no stream.
\<close>

theorem GetTestInput_missing_fixture_fatal:
  assumes "files w (inputPath L t optFns) = None"
    and "CreateSnapshot (inputOptions optFns) = None"
  shows "\<exists>msg w'. GetTestInput L t optFns w = (Inl (Fatalf msg), w')"
  using assms
  by (simp add: GetTestInput_def osOpen_def Let_def osIsNotExist_def split: option.splits)

theorem GetTestInput_missing_fixture_fatal_witness:
  "GetTestInput sampleLib sampleT [] freshWorld =
     (Inl (Fatalf (''snapshot file '' @ [CHR 0x22] @ ''/src/__snapshots__/TestSample/input.txt''
                    @ [CHR 0x22] @ '' does not exist and no CreateSnapshot option was provided'')),
      freshWorld\<lparr>tlog := [''input snapshot filename: /src/__snapshots__/TestSample/input.txt'']\<rparr>)"
proof -
  have p: "inputPath sampleLib sampleT [] = ''/src/__snapshots__/TestSample/input.txt''"
    by (simp add: inputPath_def inputOptions_def getSnapshotFilePath_def sampleLib_def sampleT_def)
  have a: "files freshWorld (inputPath sampleLib sampleT []) = None"
    by (simp add: freshWorld_def)
  have b: "CreateSnapshot (inputOptions []) = None"
    by (simp add: inputOptions_def)
  from GetTestInput_missing_fixture_fatal [OF a b]
  obtain msg w' where "GetTestInput sampleLib sampleT [] freshWorld = (Inl (Fatalf msg), w')"
    by blast
  then show ?thesis
    by (simp add: GetTestInput_def osOpen_def Let_def osIsNotExist_def p freshWorld_def tLog_def
        inputOptions_def strconvQuote_def escapeASCII_def)
qed

text \<open>
  Claim C5, as stated, fails: \<^verbatim>\<open>GetTestInput\<close> returns \<^verbatim>\<open>io.TeeReader(in, file)\<close> without
  reading from it. With a generator whose stream holds \<^verbatim>\<open>hello\<close>, the artifact is
  empty at the moment the call returns.
\<close>

theorem GetTestInput_returns_before_reading:
  "GetTestInput sampleLib sampleT [WithInputSnapshotReader (MemReader ''hello'' None)] freshWorld =
     (Inr (TeeReader (MemReader ''hello'' None) ''/src/__snapshots__/TestSample/input.txt'' 0),
      freshWorld
        \<lparr>files := (files freshWorld)(''/src/__snapshots__/TestSample/input.txt'' \<mapsto> []),
         tlog := [''input snapshot filename: /src/__snapshots__/TestSample/input.txt'',
                  ''creating new input snapshot'']\<rparr>)"
  by (simp add: GetTestInput_def Let_def inputPath_def inputOptions_def getSnapshotFilePath_def
      sampleLib_def sampleT_def freshWorld_def WithInputSnapshotReader_def WithCreateSnapshot_def
      osOpen_def tLog_def osIsNotExist_def osMkdirAll_def osCreate_def)

text \<open>
  Claim C5, amended. When the fixture is absent, a generator is supplied and the
  storage operations succeed, \<^verbatim>\<open>GetTestInput\<close> runs the generator once, creates an
  empty artifact and returns a tee of the generator's stream and the artifact, without
  reading the stream. The artifact is filled by the caller's reading of the returned
  stream: once the caller has read it to its end (the generator's stream reading as
  \<open>d\<close> without an error and having no handle on the artifact), the caller has got
  \<open>d\<close> and the artifact holds \<open>d\<close>.
\<close>

theorem GetTestInput_tee:
  assumes "files w (inputPath L t optFns) = None"
    and "fault w (OpOpen (inputPath L t optFns)) = None"
    and "CreateSnapshot (inputOptions optFns) = Some create"
    and "create (w\<lparr>tlog := tlog w @ [''input snapshot filename: '' @ inputPath L t optFns]\<rparr>)
           = (Inr (src, None), wg)"
    and "fault wg (OpMkdirAll (filepathDir L (inputPath L t optFns))) = None"
    and "fault wg (OpCreate (inputPath L t optFns)) = None"
    and "returned = wg\<lparr>files := (files wg)(inputPath L t optFns \<mapsto> []),
                         tlog := tlog wg @ [''creating new input snapshot'']\<rparr>"
  shows "GetTestInput L t optFns w = (Inr (TeeReader src (inputPath L t optFns) 0), returned)
         \<and> files returned (inputPath L t optFns) = Some []
         \<and> (inputPath L t optFns \<notin> readerPaths src
              \<and> readAll src wg = (Inr (d, None), wd)
              \<and> (d = [] \<or> fault wg (OpWrite (inputPath L t optFns)) = None)
              \<longrightarrow> readAll (TeeReader src (inputPath L t optFns) 0) returned =
                    (Inr (d, None),
                     wd\<lparr>files := (files wd)(inputPath L t optFns \<mapsto> d),
                        tlog := tlog wg @ [''creating new input snapshot'']\<rparr>))"
proof -
  have g: "GetTestInput L t optFns w = (Inr (TeeReader src (inputPath L t optFns) 0), returned)"
    unfolding assms(7) using assms(1-6) by (rule GetTestInput_created)
  show ?thesis
    using g TeeReader_drained [of "inputPath L t optFns" src wg d None wd]
    by (auto simp: assms(7))
qed

theorem GetTestInput_tee_witness:
  "GetTestInput sampleLib sampleT [WithInputSnapshotReader (MemReader ''hello'' None)] freshWorld =
     (Inr (TeeReader (MemReader ''hello'' None) ''/src/__snapshots__/TestSample/input.txt'' 0),
      freshWorld
        \<lparr>files := (files freshWorld)(''/src/__snapshots__/TestSample/input.txt'' \<mapsto> []),
         tlog := [''input snapshot filename: /src/__snapshots__/TestSample/input.txt'',
                  ''creating new input snapshot'']\<rparr>)
   \<and> readAll (TeeReader (MemReader ''hello'' None) ''/src/__snapshots__/TestSample/input.txt'' 0)
       (freshWorld
        \<lparr>files := (files freshWorld)(''/src/__snapshots__/TestSample/input.txt'' \<mapsto> []),
         tlog := [''input snapshot filename: /src/__snapshots__/TestSample/input.txt'',
                  ''creating new input snapshot'']\<rparr>) =
     (Inr (''hello'', None),
      freshWorld
        \<lparr>files := (files freshWorld)(''/src/__snapshots__/TestSample/input.txt'' \<mapsto> ''hello''),
         tlog := [''input snapshot filename: /src/__snapshots__/TestSample/input.txt'',
                  ''creating new input snapshot'']\<rparr>)"
proof -
  let ?opts = "[WithInputSnapshotReader (MemReader ''hello'' None)]"
  let ?p = "inputPath sampleLib sampleT ?opts"
  let ?wg = "freshWorld\<lparr>tlog := tlog freshWorld @ [''input snapshot filename: '' @ ?p]\<rparr>"
  have p: "?p = ''/src/__snapshots__/TestSample/input.txt''"
    by (simp add: inputPath_def inputOptions_def getSnapshotFilePath_def sampleLib_def sampleT_def
        WithInputSnapshotReader_def WithCreateSnapshot_def)
  have h: "files freshWorld ?p = None" "fault freshWorld (OpOpen ?p) = None"
    "CreateSnapshot (inputOptions ?opts) = Some (\<lambda>w. (Inr (MemReader ''hello'' None, None), w))"
    "(\<lambda>w. (Inr (MemReader ''hello'' None, None), w)) ?wg = (Inr (MemReader ''hello'' None, None), ?wg)"
    "fault ?wg (OpMkdirAll (filepathDir sampleLib ?p)) = None"
    "fault ?wg (OpCreate ?p) = None"
    by (simp_all add: freshWorld_def inputOptions_def WithInputSnapshotReader_def WithCreateSnapshot_def)
  have k: "?p \<notin> readerPaths (MemReader ''hello'' None)
     \<and> readAll (MemReader ''hello'' None) ?wg = (Inr (''hello'', None), ?wg)
     \<and> (''hello'' = [] \<or> fault ?wg (OpWrite ?p) = None)"
    by (simp add: freshWorld_def)
  from GetTestInput_tee [OF h refl, of "''hello''" ?wg] k show ?thesis
    by (simp add: p freshWorld_def)
qed

text \<open>
  Claim C3, as stated, fails in its second half: after a first call whose stream has
  not been read, the artifact exists and is empty, so a second call returns a stream
  that reads as the empty text, not as the data of the first generator.
\<close>

theorem second_stream_empty_before_first_is_read:
  "GetTestInput sampleLib sampleT [WithInputSnapshotReader (MemReader ''world'' None)]
     (snd (GetTestInput sampleLib sampleT [WithInputSnapshotReader (MemReader ''hello'' None)]
             freshWorld)) =
     (Inr (OsFile ''/src/__snapshots__/TestSample/input.txt'' 0),
      freshWorld
        \<lparr>files := (files freshWorld)(''/src/__snapshots__/TestSample/input.txt'' \<mapsto> []),
         tlog := [''input snapshot filename: /src/__snapshots__/TestSample/input.txt'',
                  ''creating new input snapshot'',
                  ''input snapshot filename: /src/__snapshots__/TestSample/input.txt'',
                  ''using existing snapshot'']\<rparr>)
   \<and> fst (readAll (OsFile ''/src/__snapshots__/TestSample/input.txt'' 0)
       (freshWorld
        \<lparr>files := (files freshWorld)(''/src/__snapshots__/TestSample/input.txt'' \<mapsto> []),
         tlog := [''input snapshot filename: /src/__snapshots__/TestSample/input.txt'',
                  ''creating new input snapshot'',
                  ''input snapshot filename: /src/__snapshots__/TestSample/input.txt'',
                  ''using existing snapshot'']\<rparr>)) = Inr ([], None)"
  by (simp add: GetTestInput_def Let_def inputPath_def inputOptions_def getSnapshotFilePath_def
      sampleLib_def sampleT_def freshWorld_def WithInputSnapshotReader_def WithCreateSnapshot_def
      osOpen_def tLog_def osIsNotExist_def osMkdirAll_def osCreate_def)

text \<open>
  Claim C3, amended. Whenever the fixture artifact exists and can be opened,
  \<^verbatim>\<open>GetTestInput\<close> returns a stream of the artifact's bytes and the world changes by two
  log lines only, whatever generator the options carry: the generator is not run.
  Hence two calls for the same identity with two generators yield the data of the
  first generator both times, and the second generator is not run, provided the
  stream of the first call has been read to its end, without an error, before the
  second call.
\<close>

theorem fixture_persistence:
  "(files w (inputPath L t optFns) = Some c
    \<and> fault w (OpOpen (inputPath L t optFns)) = None
    \<and> fault w (OpRead (inputPath L t optFns)) = None
    \<and> w' = w\<lparr>tlog := tlog w @ [''input snapshot filename: '' @ inputPath L t optFns,
                                  ''using existing snapshot'']\<rparr>
    \<longrightarrow> GetTestInput L t optFns w = (Inr (OsFile (inputPath L t optFns) 0), w')
        \<and> readAll (OsFile (inputPath L t optFns) 0) w' = (Inr (c, None), w'))
   \<and> (files w (inputPath L t optFns) = None
      \<and> fault w (OpOpen (inputPath L t optFns)) = None
      \<and> CreateSnapshot (inputOptions optFns) = Some create
      \<and> create (w\<lparr>tlog := tlog w @ [''input snapshot filename: '' @ inputPath L t optFns]\<rparr>)
            = (Inr (src, None), wg)
      \<and> fault wg (OpMkdirAll (filepathDir L (inputPath L t optFns))) = None
      \<and> fault wg (OpCreate (inputPath L t optFns)) = None
      \<and> fault wg (OpOpen (inputPath L t optFns)) = None
      \<and> fault wg (OpRead (inputPath L t optFns)) = None
      \<and> (d = [] \<or> fault wg (OpWrite (inputPath L t optFns)) = None)
      \<and> inputPath L t optFns \<notin> readerPaths src
      \<and> readAll src wg = (Inr (d, None), wd)
      \<and> inputPath L t optFns2 = inputPath L t optFns
      \<longrightarrow> (\<exists>r1 w1 w2 w3.
             GetTestInput L t optFns w = (Inr r1, w1)
             \<and> readAll r1 w1 = (Inr (d, None), w2)
             \<and> GetTestInput L t optFns2 w2 = (Inr (OsFile (inputPath L t optFns) 0), w3)
             \<and> w3 = w2\<lparr>tlog := tlog w2 @ [''input snapshot filename: '' @ inputPath L t optFns,
                                            ''using existing snapshot'']\<rparr>
             \<and> readAll (OsFile (inputPath L t optFns) 0) w3 = (Inr (d, None), w3)))"
proof (intro conjI impI)
  assume a: "files w (inputPath L t optFns) = Some c
    \<and> fault w (OpOpen (inputPath L t optFns)) = None
    \<and> fault w (OpRead (inputPath L t optFns)) = None
    \<and> w' = w\<lparr>tlog := tlog w @ [''input snapshot filename: '' @ inputPath L t optFns,
                                  ''using existing snapshot'']\<rparr>"
  then show "GetTestInput L t optFns w = (Inr (OsFile (inputPath L t optFns) 0), w')"
    using GetTestInput_existing [of w L t optFns c] by simp
  from a show "readAll (OsFile (inputPath L t optFns) 0) w' = (Inr (c, None), w')"
    by simp
next
  let ?p = "inputPath L t optFns"
  assume b: "files w ?p = None
      \<and> fault w (OpOpen ?p) = None
      \<and> CreateSnapshot (inputOptions optFns) = Some create
      \<and> create (w\<lparr>tlog := tlog w @ [''input snapshot filename: '' @ ?p]\<rparr>)
            = (Inr (src, None), wg)
      \<and> fault wg (OpMkdirAll (filepathDir L ?p)) = None
      \<and> fault wg (OpCreate ?p) = None
      \<and> fault wg (OpOpen ?p) = None
      \<and> fault wg (OpRead ?p) = None
      \<and> (d = [] \<or> fault wg (OpWrite ?p) = None)
      \<and> ?p \<notin> readerPaths src
      \<and> readAll src wg = (Inr (d, None), wd)
      \<and> inputPath L t optFns2 = ?p"
  let ?l = "tlog wg @ [''creating new input snapshot'']"
  let ?w1 = "wg\<lparr>files := (files wg)(?p \<mapsto> []), tlog := ?l\<rparr>"
  let ?w2 = "wd\<lparr>files := (files wd)(?p \<mapsto> d), tlog := ?l\<rparr>"
  let ?w3 = "?w2\<lparr>tlog := tlog ?w2 @ [''input snapshot filename: '' @ ?p,
                                       ''using existing snapshot'']\<rparr>"
  have f: "fault wd = fault wg"
    using b readAll_fault by blast
  from b have absent: "files w ?p = None" and opn: "fault w (OpOpen ?p) = None"
    and gen: "CreateSnapshot (inputOptions optFns) = Some create"
    and run: "create (w\<lparr>tlog := tlog w @ [''input snapshot filename: '' @ ?p]\<rparr>)
                = (Inr (src, None), wg)"
    and mk: "fault wg (OpMkdirAll (filepathDir L ?p)) = None"
    and cr: "fault wg (OpCreate ?p) = None"
    and wr: "d = [] \<or> fault wg (OpWrite ?p) = None"
    and fresh: "?p \<notin> readerPaths src"
    and rd: "readAll src wg = (Inr (d, None), wd)"
    by auto
  have 1: "GetTestInput L t optFns w = (Inr (TeeReader src ?p 0), ?w1)"
    using absent opn gen run mk cr by (rule GetTestInput_created)
  have 2: "readAll (TeeReader src ?p 0) ?w1 = (Inr (d, None), ?w2)"
    using fresh rd wr by (rule TeeReader_drained)
  have 3: "GetTestInput L t optFns2 ?w2 = (Inr (OsFile ?p 0), ?w3)"
    using b f GetTestInput_existing [of ?w2 L t optFns2 d] by simp
  have 4: "readAll (OsFile ?p 0) ?w3 = (Inr (d, None), ?w3)"
    using b f by simp
  show "\<exists>r1 w1 w2 w3.
             GetTestInput L t optFns w = (Inr r1, w1)
             \<and> readAll r1 w1 = (Inr (d, None), w2)
             \<and> GetTestInput L t optFns2 w2 = (Inr (OsFile ?p 0), w3)
             \<and> w3 = w2\<lparr>tlog := tlog w2 @ [''input snapshot filename: '' @ ?p,
                                            ''using existing snapshot'']\<rparr>
             \<and> readAll (OsFile ?p 0) w3 = (Inr (d, None), w3)"
    using 1 2 3 4 by blast
qed


theorem fixture_persistence_witness:
  "(GetTestInput sampleLib sampleT [WithInputSnapshotReader (MemReader ''world'' None)]
      (freshWorld\<lparr>files := (files freshWorld)(''/src/__snapshots__/TestSample/input.txt'' \<mapsto> ''hello'')\<rparr>) =
      (Inr (OsFile ''/src/__snapshots__/TestSample/input.txt'' 0),
       freshWorld
         \<lparr>files := (files freshWorld)(''/src/__snapshots__/TestSample/input.txt'' \<mapsto> ''hello''),
          tlog := [''input snapshot filename: /src/__snapshots__/TestSample/input.txt'',
                   ''using existing snapshot'']\<rparr>)
    \<and> fst (readAll (OsFile ''/src/__snapshots__/TestSample/input.txt'' 0)
        (freshWorld
         \<lparr>files := (files freshWorld)(''/src/__snapshots__/TestSample/input.txt'' \<mapsto> ''hello''),
          tlog := [''input snapshot filename: /src/__snapshots__/TestSample/input.txt'',
                   ''using existing snapshot'']\<rparr>)) = Inr (''hello'', None))
   \<and> (\<exists>r1 w1 w2 w3.
        GetTestInput sampleLib sampleT [WithInputSnapshotReader (MemReader ''hello'' None)] freshWorld
          = (Inr r1, w1)
        \<and> readAll r1 w1 = (Inr (''hello'', None), w2)
        \<and> GetTestInput sampleLib sampleT [WithInputSnapshotReader (MemReader ''world'' None)] w2
          = (Inr (OsFile ''/src/__snapshots__/TestSample/input.txt'' 0), w3)
        \<and> w3 = w2\<lparr>tlog := tlog w2 @ [''input snapshot filename: /src/__snapshots__/TestSample/input.txt'',
                                       ''using existing snapshot'']\<rparr>
        \<and> readAll (OsFile ''/src/__snapshots__/TestSample/input.txt'' 0) w3
          = (Inr (''hello'', None), w3))"
proof -
  let ?hello = "[WithInputSnapshotReader (MemReader ''hello'' None)]"
  let ?world = "[WithInputSnapshotReader (MemReader ''world'' None)]"
  let ?W = "freshWorld\<lparr>files := (files freshWorld)(''/src/__snapshots__/TestSample/input.txt'' \<mapsto> ''hello'')\<rparr>"
  let ?W' = "?W\<lparr>tlog := tlog ?W @ [''input snapshot filename: '' @ inputPath sampleLib sampleT ?world,
                                    ''using existing snapshot'']\<rparr>"
  let ?wg = "freshWorld\<lparr>tlog := tlog freshWorld
                 @ [''input snapshot filename: '' @ inputPath sampleLib sampleT ?hello]\<rparr>"
  let ?create = "\<lambda>w :: world. (Inr (MemReader ''hello'' None, None) :: (reader \<times> string option) result, w)"
  have p: "inputPath sampleLib sampleT [WithInputSnapshotReader r] =
             ''/src/__snapshots__/TestSample/input.txt''" for r
    by (simp add: inputPath_def inputOptions_def getSnapshotFilePath_def sampleLib_def sampleT_def
        WithInputSnapshotReader_def WithCreateSnapshot_def)
  have hA: "files ?W (inputPath sampleLib sampleT ?world) = Some ''hello''
      \<and> fault ?W (OpOpen (inputPath sampleLib sampleT ?world)) = None
      \<and> fault ?W (OpRead (inputPath sampleLib sampleT ?world)) = None
      \<and> ?W' = ?W\<lparr>tlog := tlog ?W @ [''input snapshot filename: '' @ inputPath sampleLib sampleT ?world,
                                     ''using existing snapshot'']\<rparr>"
    by (simp add: p freshWorld_def)
  have gen: "CreateSnapshot (inputOptions ?hello) = Some ?create"
    by (simp add: inputOptions_def WithInputSnapshotReader_def WithCreateSnapshot_def)
  have hB: "files freshWorld (inputPath sampleLib sampleT ?hello) = None
      \<and> fault freshWorld (OpOpen (inputPath sampleLib sampleT ?hello)) = None
      \<and> CreateSnapshot (inputOptions ?hello) = Some ?create
      \<and> ?create (freshWorld\<lparr>tlog := tlog freshWorld
            @ [''input snapshot filename: '' @ inputPath sampleLib sampleT ?hello]\<rparr>)
            = (Inr (MemReader ''hello'' None, None), ?wg)
      \<and> fault ?wg (OpMkdirAll (filepathDir sampleLib (inputPath sampleLib sampleT ?hello))) = None
      \<and> fault ?wg (OpCreate (inputPath sampleLib sampleT ?hello)) = None
      \<and> fault ?wg (OpOpen (inputPath sampleLib sampleT ?hello)) = None
      \<and> fault ?wg (OpRead (inputPath sampleLib sampleT ?hello)) = None
      \<and> (''hello'' = [] \<or> fault ?wg (OpWrite (inputPath sampleLib sampleT ?hello)) = None)
      \<and> inputPath sampleLib sampleT ?hello \<notin> readerPaths (MemReader ''hello'' None)
      \<and> readAll (MemReader ''hello'' None) ?wg = (Inr (''hello'', None), ?wg)
      \<and> inputPath sampleLib sampleT ?world = inputPath sampleLib sampleT ?hello"
    using gen by (simp add: p freshWorld_def)
  note A = fixture_persistence [where w = ?W and L = sampleLib and t = sampleT and optFns = ?world
      and c = "''hello''" and w' = ?W', THEN conjunct1, THEN mp, OF hA]
  note B = fixture_persistence [where w = freshWorld and L = sampleLib and t = sampleT
      and optFns = ?hello and create = ?create and src = "MemReader ''hello'' None" and wg = ?wg
      and d = "''hello''" and wd = ?wg and ?optFns2.0 = ?world, THEN conjunct2, THEN mp, OF hB]
  from A B show ?thesis
    by (simp add: p freshWorld_def)
qed

section \<open>Serialization: AsJSON\<close>

text \<open>
  Claim C9, as stated, fails: a callable without parameters that returns exactly one
  value which has no JSON encoding, a channel, makes \<^verbatim>\<open>AsJSON\<close> fail, with the error of
  the encoder.
\<close>

theorem AsJSON_single_unencodable_value:
  "AsJSON sampleLib (GoFunc 0 False [GoChan]) =
     Inr (MemReader [] None,
          Some ''failed to encode snapshot as JSON: json: unsupported type: chan int'')"
  by (simp add: AsJSON_def encodeIndented_def encoderEncode_def sampleLib_def sampleJSON_def)

text \<open>
  Claim C9, amended. For a callable without parameters that returns exactly one value
  \<open>v\<close>, \<^verbatim>\<open>AsJSON\<close> encodes \<open>v\<close>: it succeeds, with the encoding of \<open>v\<close> and a newline,
  when the encoder accepts \<open>v\<close>, and fails with the wrapped error of the encoder
  otherwise. For a callable that returns no value or several values it fails with the
  message about the single value and returns no stream.
\<close>

theorem AsJSON_arity_contract:
  "AsJSON L (GoFunc 0 False [v]) =
     (case jsonMarshalIndent L v of
        Inr s \<Rightarrow> Inr (MemReader (s @ [CHR 0x0A]) None, None)
      | Inl e \<Rightarrow> Inr (MemReader [] None, Some (''failed to encode snapshot as JSON: '' @ e)))
   \<and> (length res \<noteq> 1 \<longrightarrow>
        AsJSON L (GoFunc 0 False res) =
          Inr (NilReader, Some ''callable arguments to AsJSON must return a single value''))"
  by (simp add: AsJSON_def encodeIndented_def encoderEncode_def split: sum.splits)

theorem AsJSON_arity_contract_witness:
  "AsJSON sampleLib (GoFunc 0 False [GoString ''hello'']) =
     Inr (MemReader ([CHR 0x22] @ ''hello'' @ [CHR 0x22, CHR 0x0A]) None, None)
   \<and> AsJSON sampleLib (GoFunc 0 False []) =
       Inr (NilReader, Some ''callable arguments to AsJSON must return a single value'')
   \<and> AsJSON sampleLib (GoFunc 0 False [GoString ''hello'', GoNil]) =
       Inr (NilReader, Some ''callable arguments to AsJSON must return a single value'')"
  using AsJSON_arity_contract [of sampleLib "GoString ''hello''" "[]"]
    AsJSON_arity_contract [of sampleLib "GoString ''hello''" "[GoString ''hello'', GoNil]"]
  by (simp add: sampleLib_def sampleJSON_def)

text \<open>
  A function whose only parameter is variadic is called like one without parameters.
\<close>

lemma AsJSON_variadic: "AsJSON L (GoFunc 1 True res) = AsJSON L (GoFunc 0 False res)"
  by (simp add: AsJSON_def)








end
